theory Spec2Isabelle
  imports Main
begin

section \<open>JavaScript values and string primitives\<close>

text \<open>
  The request handlers of \<^verbatim>\<open>backend/src/app.js\<close> read fields of a parsed JSON body and
  path parameters. A body field is a JavaScript value; an absent field reads as
  \<open>undefined\<close>. Numbers are restricted to the integers; strings are lists of
  characters with codes below 256. White space is the JavaScript white space in that
  range (tab, the line breaks, space, no-break space); letter case is that of the ASCII
  letters.
\<close>

datatype jsval = JUndefined | JNull | JBool bool | JNum int | JStr string
  | JArr "jsval list" | JObj "(string \<times> jsval) list"

fun truthy :: "jsval \<Rightarrow> bool" where
  "truthy JUndefined = False"
| "truthy JNull = False"
| "truthy (JBool b) = b"
| "truthy (JNum n) = (n \<noteq> 0)"
| "truthy (JStr s) = (s \<noteq> [])"
| "truthy (JArr _) = True"
| "truthy (JObj _) = True"

fun typeof :: "jsval \<Rightarrow> string" where
  "typeof JUndefined = ''undefined''"
| "typeof JNull = ''object''"
| "typeof (JBool _) = ''boolean''"
| "typeof (JNum _) = ''number''"
| "typeof (JStr _) = ''string''"
| "typeof (JArr _) = ''object''"
| "typeof (JObj _) = ''object''"

definition is_ws :: "char \<Rightarrow> bool" where
  "is_ws c = (c \<in> set [CHR 0x09, CHR 0x0A, CHR 0x0B, CHR 0x0C, CHR 0x0D, CHR '' '', CHR 0xA0])"

definition is_digit :: "char \<Rightarrow> bool" where
  "is_digit c = (c \<in> set ''0123456789'')"

definition digit_val :: "char \<Rightarrow> nat" where
  "digit_val c =
     (case map_of (zip ''0123456789'' [0, 1, 2, 3, 4, 5, 6, 7, 8, 9]) c of
        Some d \<Rightarrow> d | None \<Rightarrow> 0)"

definition digit_char :: "nat \<Rightarrow> char" where
  "digit_char n = ''0123456789'' ! n"

definition lower_char :: "char \<Rightarrow> char" where
  "lower_char c =
     (case map_of (zip ''ABCDEFGHIJKLMNOPQRSTUVWXYZ'' ''abcdefghijklmnopqrstuvwxyz'') c of
        Some d \<Rightarrow> d | None \<Rightarrow> c)"

text \<open>\<^verbatim>\<open>s.toLowerCase()\<close> and \<^verbatim>\<open>s.trim()\<close>.\<close>

definition toLowerCase :: "string \<Rightarrow> string" where
  "toLowerCase s = map lower_char s"

definition trim :: "string \<Rightarrow> string" where
  "trim s = rev (dropWhile is_ws (rev (dropWhile is_ws s)))"

text \<open>\<^verbatim>\<open>s.startsWith(p)\<close>, substring search, and the rest of a text from a substring on.\<close>

definition starts_with :: "string \<Rightarrow> string \<Rightarrow> bool" where
  "starts_with p s = (take (length p) s = p)"

fun contains :: "string \<Rightarrow> string \<Rightarrow> bool" where
  "contains p [] = (p = [])"
| "contains p (c # cs) = (starts_with p (c # cs) \<or> contains p cs)"

fun from_first :: "string \<Rightarrow> string \<Rightarrow> string" where
  "from_first p [] = []"
| "from_first p (c # cs) = (if starts_with p (c # cs) then c # cs else from_first p cs)"

text \<open>\<^verbatim>\<open>text.replace(/\$\d+/g, '?')\<close>: every \<open>$\<close> followed by digits becomes \<open>?\<close>.\<close>

function replace_placeholders :: "string \<Rightarrow> string" where
  "replace_placeholders [] = []"
| "replace_placeholders (c # cs) =
     (if c = CHR ''$'' \<and> takeWhile is_digit cs \<noteq> []
      then CHR ''?'' # replace_placeholders (dropWhile is_digit cs)
      else c # replace_placeholders cs)"
  by pat_completeness auto
termination
  by (relation "measure length") (auto simp: length_dropWhile_le less_Suc_eq_le)

text \<open>
  \<^verbatim>\<open>Number.parseInt(str, 10)\<close>: leading white space is skipped, one sign is read, then the
  longest run of decimal digits; no digit gives \<open>NaN\<close>, here \<open>None\<close>. The value is the
  exact integer (a JavaScript number is exact up to \<open>2^53\<close>).
\<close>

definition parseInt :: "string \<Rightarrow> int option" where
  "parseInt str =
     (let s = dropWhile is_ws str;
          neg = (take 1 s = ''-'');
          s1 = (if take 1 s = ''-'' \<or> take 1 s = ''+'' then drop 1 s else s);
          z = takeWhile is_digit s1
      in if z = [] then None
         else Some ((if neg then - 1 else 1) * int (foldl (\<lambda>a c. 10 * a + digit_val c) 0 z)))"

text \<open>\<^verbatim>\<open>String(v)\<close>.\<close>

function show_nat :: "nat \<Rightarrow> string" where
  "show_nat n = (if n < 10 then [digit_char n] else show_nat (n div 10) @ [digit_char (n mod 10)])"
  by pat_completeness auto
termination
  by (relation "measure id") auto

fun join_comma :: "string list \<Rightarrow> string" where
  "join_comma [] = []"
| "join_comma [x] = x"
| "join_comma (x # y # ys) = x @ '','' @ join_comma (y # ys)"

fun js_String :: "jsval \<Rightarrow> string" where
  "js_String JUndefined = ''undefined''"
| "js_String JNull = ''null''"
| "js_String (JBool b) = (if b then ''true'' else ''false'')"
| "js_String (JNum n) = (if n < 0 then CHR ''-'' # show_nat (nat (- n)) else show_nat (nat n))"
| "js_String (JStr s) = s"
| "js_String (JArr xs) =
     join_comma (map (\<lambda>v. case v of JUndefined \<Rightarrow> [] | JNull \<Rightarrow> [] | _ \<Rightarrow> js_String v) xs)"
| "js_String (JObj _) = ''[object Object]''"

section \<open>Errors, responses, rows\<close>

text \<open>
  A thrown \<^verbatim>\<open>Error\<close>: its message, the \<open>status\<close> property \<^verbatim>\<open>ensureUser\<close> sets, and the
  \<open>code\<close> property a database driver sets.
\<close>

record js_error =
  err_message :: string
  err_status :: "nat option"
  err_code :: string

definition http_error :: "nat \<Rightarrow> string \<Rightarrow> js_error" where
  "http_error st msg = \<lparr>err_message = msg, err_status = Some st, err_code = []\<rparr>"

definition plain_error :: "string \<Rightarrow> js_error" where
  "plain_error msg = \<lparr>err_message = msg, err_status = None, err_code = []\<rparr>"

definition driver_error :: "string \<Rightarrow> string \<Rightarrow> js_error" where
  "driver_error code msg = \<lparr>err_message = msg, err_status = None, err_code = code\<rparr>"

record user_row =
  u_id :: int
  u_name :: string
  u_email :: string
  u_password_hash :: string
  u_created_at :: nat
  u_updated_at :: nat

record task_row =
  t_id :: int
  t_user_id :: int
  t_title :: string
  t_completed :: bool
  t_created_at :: nat
  t_updated_at :: nat

text \<open>
  A result row stands for the table row it was selected from; every handler reads only
  columns that its statement selects.
\<close>

datatype sql_row = UserRow user_row | TaskRow task_row | ScalarRow

fun row_user :: "sql_row \<Rightarrow> user_row option" where
  "row_user (UserRow u) = Some u"
| "row_user _ = None"

fun row_task :: "sql_row \<Rightarrow> task_row option" where
  "row_task (TaskRow t) = Some t"
| "row_task _ = None"

record user_json =
  j_id :: int
  j_name :: string
  j_email :: string

record task_json =
  tj_id :: int
  tj_userId :: int
  tj_title :: string
  tj_completed :: bool
  tj_createdAt :: nat
  tj_updatedAt :: nat

datatype body_json =
    Message string
  | UserPayload user_json
  | TaskPayload task_json
  | TaskArray "task_json list"
  | HealthOk
  | HealthError string
  | NoBody

record response =
  status :: nat
  body :: body_json

definition sanitizeUser :: "user_row \<Rightarrow> user_json" where
  "sanitizeUser row = \<lparr>j_id = u_id row, j_name = u_name row, j_email = u_email row\<rparr>"

text \<open>
  The engines store the completed flag as 0 or 1 and \<^verbatim>\<open>Boolean(row.completed)\<close> reads it
  back as a boolean; the column is a boolean here.
\<close>

definition mapTask :: "task_row \<Rightarrow> task_json" where
  "mapTask row =
     \<lparr>tj_id = t_id row, tj_userId = t_user_id row, tj_title = t_title row,
      tj_completed = t_completed row, tj_createdAt = t_created_at row,
      tj_updatedAt = t_updated_at row\<rparr>"

section \<open>The store and the two database engines\<close>

text \<open>
  The two tables, the engine's id counters, the connection's last insert id, the time
  \<open>NOW()\<close> reads, and the statement texts handed to the driver so far (oldest first).
\<close>

record store =
  users :: "user_row list"
  tasks :: "task_row list"
  next_user_id :: int
  next_task_id :: int
  last_rowid :: int
  clock :: nat
  sent :: "string list"

text \<open>
  What the handlers take from their surroundings: \<open>useMySql\<close> (whether \<^verbatim>\<open>MYSQL_URL\<close> is
  set), how the engine reads a text parameter compared with an integer id column
  (\<open>None\<close>: it equals no id), and bcrypt. \<open>sqlite_has_now\<close> says whether the embedded
  engine knows a function \<open>NOW()\<close>; stock SQLite does not, and the results below that
  depend on it are stated for both values.
\<close>

record env =
  useMySql :: bool
  sqlite_has_now :: bool
  id_of_text :: "string \<Rightarrow> int option"
  bcrypt_hash :: "string \<Rightarrow> string"
  bcrypt_compare :: "string \<Rightarrow> string \<Rightarrow> bool"

text \<open>The statements \<^verbatim>\<open>app.js\<close> passes to \<^verbatim>\<open>query\<close>, with their parameters.\<close>

datatype stmt =
    SelectOne
  | SelectUserById int
  | SelectUserIdByEmail string
  | InsertUserReturning string string string
  | InsertUser string string string
  | SelectUserByEmail string
  | SelectLoginByEmail string
  | SelectTasksByUser int
  | InsertTaskReturning int string
  | InsertTask int string
  | SelectLastTaskOfUser int
  | SelectTaskByIdUser string int
  | UpdateTaskReturning string bool string int
  | DeleteTask string int

fun sql_text :: "stmt \<Rightarrow> string" where
  "sql_text SelectOne = ''SELECT 1''"
| "sql_text (SelectUserById _) = ''SELECT id, name, email FROM users WHERE id = $1''"
| "sql_text (SelectUserIdByEmail _) = ''SELECT id FROM users WHERE email = $1''"
| "sql_text (InsertUserReturning _ _ _) =
     ''INSERT INTO users (name, email, password_hash, created_at, updated_at) VALUES ($1, $2, $3, NOW(), NOW()) RETURNING id, name, email''"
| "sql_text (InsertUser _ _ _) =
     ''INSERT INTO users (name, email, password_hash, created_at, updated_at) VALUES ($1, $2, $3, NOW(), NOW())''"
| "sql_text (SelectUserByEmail _) = ''SELECT id, name, email FROM users WHERE email = $1''"
| "sql_text (SelectLoginByEmail _) =
     ''SELECT id, name, email, password_hash FROM users WHERE email = $1''"
| "sql_text (SelectTasksByUser _) =
     ''SELECT id, user_id, title, completed, created_at, updated_at FROM tasks WHERE user_id = $1 ORDER BY created_at DESC''"
| "sql_text (InsertTaskReturning _ _) =
     ''INSERT INTO tasks (user_id, title, completed, created_at, updated_at) VALUES ($1, $2, FALSE, NOW(), NOW()) RETURNING id, user_id, title, completed, created_at, updated_at''"
| "sql_text (InsertTask _ _) =
     ''INSERT INTO tasks (user_id, title, completed, created_at, updated_at) VALUES ($1, $2, FALSE, NOW(), NOW())''"
| "sql_text (SelectLastTaskOfUser _) =
     ''SELECT id, user_id, title, completed, created_at, updated_at FROM tasks WHERE user_id = $1 ORDER BY id DESC LIMIT 1''"
| "sql_text (SelectTaskByIdUser _ _) =
     ''SELECT id, user_id, title, completed, created_at, updated_at FROM tasks WHERE id = $1 AND user_id = $2''"
| "sql_text (UpdateTaskReturning _ _ _ _) =
     ''UPDATE tasks SET title = $1, completed = $2, updated_at = NOW() WHERE id = $3 AND user_id = $4 RETURNING id, user_id, title, completed, created_at, updated_at''"
| "sql_text (DeleteTask _ _) = ''DELETE FROM tasks WHERE id = $1 AND user_id = $2''"

text \<open>
  What an engine gives back: the rows of a \<open>SELECT\<close>, or for a write the number of rows
  it changed and the id it inserted (\<open>0\<close> when it inserted none).
\<close>

datatype outcome = RowsOut "sql_row list" | WriteOut nat int

text \<open>
  \<open>email = ?\<close>: the networked engine's default collations compare without regard to
  letter case, the embedded engine compares the bytes.
\<close>

definition email_eq :: "env \<Rightarrow> string \<Rightarrow> string \<Rightarrow> bool" where
  "email_eq env a b = (if useMySql env then toLowerCase a = toLowerCase b else a = b)"

definition users_by_email :: "env \<Rightarrow> string \<Rightarrow> store \<Rightarrow> user_row list" where
  "users_by_email env e s = filter (\<lambda>u. email_eq env (u_email u) e) (users s)"

definition users_by_id :: "int \<Rightarrow> store \<Rightarrow> user_row list" where
  "users_by_id n s = filter (\<lambda>u. u_id u = n) (users s)"

text \<open>\<open>WHERE id = ? AND user_id = ?\<close>, with the task id given as the path's text.\<close>

definition task_matches :: "env \<Rightarrow> string \<Rightarrow> int \<Rightarrow> task_row \<Rightarrow> bool" where
  "task_matches env tid uid t = (id_of_text env tid = Some (t_id t) \<and> t_user_id t = uid)"

definition unique_violation :: "env \<Rightarrow> js_error" where
  "unique_violation env =
     (if useMySql env then driver_error ''ER_DUP_ENTRY'' ''Duplicate entry for key users.email''
      else driver_error ''SQLITE_CONSTRAINT''
             ''SQLITE_CONSTRAINT: UNIQUE constraint failed: users.email'')"

definition foreign_key_violation :: "env \<Rightarrow> js_error" where
  "foreign_key_violation env =
     (if useMySql env
      then driver_error ''ER_NO_REFERENCED_ROW_2''
             ''Cannot add or update a child row: a foreign key constraint fails''
      else driver_error ''SQLITE_CONSTRAINT'' ''SQLITE_CONSTRAINT: FOREIGN KEY constraint failed'')"

definition insert_user :: "env \<Rightarrow> string \<Rightarrow> string \<Rightarrow> string \<Rightarrow> store \<Rightarrow> js_error + outcome \<times> store" where
  "insert_user env n e h s =
     (if users_by_email env e s \<noteq> [] then Inl (unique_violation env)
      else Inr (WriteOut 1 (next_user_id s),
             s\<lparr>users := users s @
                  [\<lparr>u_id = next_user_id s, u_name = n, u_email = e, u_password_hash = h,
                    u_created_at = clock s, u_updated_at = clock s\<rparr>],
               next_user_id := next_user_id s + 1,
               last_rowid := next_user_id s\<rparr>))"

definition insert_task :: "env \<Rightarrow> int \<Rightarrow> string \<Rightarrow> store \<Rightarrow> js_error + outcome \<times> store" where
  "insert_task env uid title s =
     (if users_by_id uid s = [] then Inl (foreign_key_violation env)
      else Inr (WriteOut 1 (next_task_id s),
             s\<lparr>tasks := tasks s @
                  [\<lparr>t_id = next_task_id s, t_user_id = uid, t_title = title,
                    t_completed = False, t_created_at = clock s, t_updated_at = clock s\<rparr>],
               next_task_id := next_task_id s + 1,
               last_rowid := next_task_id s\<rparr>))"

text \<open>
  The meaning of each statement on the tables. \<open>SELECT\<close> without \<open>ORDER BY\<close> returns rows
  in table order; \<open>ORDER BY ... DESC\<close> is a stable sort, reversed.
\<close>

fun run_stmt :: "env \<Rightarrow> stmt \<Rightarrow> store \<Rightarrow> js_error + outcome \<times> store" where
  "run_stmt env SelectOne s = Inr (RowsOut [ScalarRow], s)"
| "run_stmt env (SelectUserById n) s = Inr (RowsOut (map UserRow (users_by_id n s)), s)"
| "run_stmt env (SelectUserIdByEmail e) s = Inr (RowsOut (map UserRow (users_by_email env e s)), s)"
| "run_stmt env (InsertUserReturning n e h) s = insert_user env n e h s"
| "run_stmt env (InsertUser n e h) s = insert_user env n e h s"
| "run_stmt env (SelectUserByEmail e) s = Inr (RowsOut (map UserRow (users_by_email env e s)), s)"
| "run_stmt env (SelectLoginByEmail e) s = Inr (RowsOut (map UserRow (users_by_email env e s)), s)"
| "run_stmt env (SelectTasksByUser uid) s =
     Inr (RowsOut (map TaskRow (rev (sort_key t_created_at
            (filter (\<lambda>t. t_user_id t = uid) (tasks s))))), s)"
| "run_stmt env (InsertTaskReturning uid title) s = insert_task env uid title s"
| "run_stmt env (InsertTask uid title) s = insert_task env uid title s"
| "run_stmt env (SelectLastTaskOfUser uid) s =
     Inr (RowsOut (map TaskRow (take 1 (rev (sort_key t_id
            (filter (\<lambda>t. t_user_id t = uid) (tasks s)))))), s)"
| "run_stmt env (SelectTaskByIdUser tid uid) s =
     Inr (RowsOut (map TaskRow (filter (task_matches env tid uid) (tasks s))), s)"
| "run_stmt env (UpdateTaskReturning title completed tid uid) s =
     Inr (WriteOut (length (filter (task_matches env tid uid) (tasks s))) 0,
          s\<lparr>tasks := map (\<lambda>t. if task_matches env tid uid t
                               then t\<lparr>t_title := title, t_completed := completed,
                                      t_updated_at := clock s\<rparr>
                               else t) (tasks s)\<rparr>)"
| "run_stmt env (DeleteTask tid uid) s =
     Inr (WriteOut (length (filter (task_matches env tid uid) (tasks s))) 0,
          s\<lparr>tasks := filter (\<lambda>t. \<not> task_matches env tid uid t) (tasks s)\<rparr>)"

text \<open>
  The engines differ in what they accept. The networked engine has no \<open>RETURNING\<close>
  clause (the comment in the register handler says so) and answers it with
  \<open>ER_PARSE_ERROR\<close>, quoting the statement from the offending word on. The embedded engine
  rejects a call of \<open>NOW()\<close> unless it knows the function. A rejected statement changes
  no table.
\<close>

definition mysql_parse_error :: "string \<Rightarrow> js_error" where
  "mysql_parse_error txt =
     driver_error ''ER_PARSE_ERROR''
       (''You have an error in your SQL syntax; check the manual that corresponds to your MySQL server version for the right syntax to use near '' @ [CHR 0x27] @ from_first ''RETURNING'' txt @ [CHR 0x27] @ '' at line 1'')"

definition sqlite_no_such_function :: js_error where
  "sqlite_no_such_function = driver_error ''SQLITE_ERROR'' ''SQLITE_ERROR: no such function: NOW''"

definition driver :: "env \<Rightarrow> stmt \<Rightarrow> store \<Rightarrow> (js_error + outcome) \<times> store" where
  "driver env st s =
     (let txt = replace_placeholders (sql_text st);
          s1 = s\<lparr>sent := sent s @ [txt]\<rparr>
      in if useMySql env \<and> contains ''RETURNING'' txt then (Inl (mysql_parse_error txt), s1)
         else if \<not> useMySql env \<and> contains ''NOW()'' txt \<and> \<not> sqlite_has_now env
           then (Inl sqlite_no_such_function, s1)
         else (case run_stmt env st s1 of
                 Inl e \<Rightarrow> (Inl e, s1)
               | Inr (out, s2) \<Rightarrow> (Inr out, s2)))"

section \<open>The data-access layer: \<^verbatim>\<open>query\<close> of \<^verbatim>\<open>backend/src/db.js\<close>\<close>

text \<open>
  The \<open>rows\<close> property of a result is an array of rows, or, where the networked driver
  answers a write, its result header (an object, not an array). \<open>rowCount\<close> is a number
  or \<open>undefined\<close> (\<open>None\<close>); \<open>lastID\<close> is set on the embedded path for writes only.
\<close>

datatype rows_val = Rows "sql_row list" | Header nat int

record qresult =
  rows :: rows_val
  rowCount :: "nat option"
  lastID :: "int option"

text \<open>\<^verbatim>\<open>pool.execute\<close> resolves to the rows of a \<open>SELECT\<close> and to a header otherwise.\<close>

fun mysql_execute_rows :: "outcome \<Rightarrow> rows_val" where
  "mysql_execute_rows (RowsOut rs) = Rows rs"
| "mysql_execute_rows (WriteOut n i) = Header n i"

text \<open>\<^verbatim>\<open>rows.length\<close>: the length of an array, \<open>undefined\<close> on a header.\<close>

fun js_length :: "rows_val \<Rightarrow> nat option" where
  "js_length (Rows rs) = Some (length rs)"
| "js_length (Header _ _) = None"

text \<open>\<^verbatim>\<open>db.all\<close> hands over the rows; \<^verbatim>\<open>db.run\<close> hands over \<open>this.changes\<close>.\<close>

fun sqlite_all_rows :: "outcome \<Rightarrow> sql_row list" where
  "sqlite_all_rows (RowsOut rs) = rs"
| "sqlite_all_rows (WriteOut _ _) = []"

fun sqlite_run_changes :: "outcome \<Rightarrow> nat" where
  "sqlite_run_changes (WriteOut n _) = n"
| "sqlite_run_changes (RowsOut _) = 0"

definition query :: "env \<Rightarrow> stmt \<Rightarrow> store \<Rightarrow> (js_error + qresult) \<times> store" where
  "query env st s =
     (if useMySql env then
        (case driver env st s of
           (Inl e, s') \<Rightarrow> (Inl e, s')
         | (Inr out, s') \<Rightarrow>
             (Inr \<lparr>rows = mysql_execute_rows out,
                   rowCount = js_length (mysql_execute_rows out), lastID = None\<rparr>, s'))
      else
        (let trimmed = toLowerCase (trim (sql_text st));
             isSelect = starts_with ''select'' trimmed;
             isInsert = starts_with ''insert'' trimmed;
             isUpdate = starts_with ''update'' trimmed;
             isDelete = starts_with ''delete'' trimmed
         in if isSelect then
              (case driver env st s of
                 (Inl e, s') \<Rightarrow> (Inl e, s')
               | (Inr out, s') \<Rightarrow>
                   (Inr \<lparr>rows = Rows (sqlite_all_rows out),
                         rowCount = Some (length (sqlite_all_rows out)), lastID = None\<rparr>, s'))
            else if isInsert \<or> isUpdate \<or> isDelete then
              (case driver env st s of
                 (Inl e, s') \<Rightarrow> (Inl e, s')
               | (Inr out, s') \<Rightarrow>
                   (Inr \<lparr>rows = Rows [], rowCount = Some (sqlite_run_changes out),
                         lastID = Some (last_rowid s')\<rparr>, s'))
            else
              (case driver env st s of
                 (Inl e, s') \<Rightarrow> (Inl e, s')
               | (Inr out, s') \<Rightarrow>
                   (Inr \<lparr>rows = Rows [], rowCount = Some (sqlite_run_changes out),
                         lastID = Some (last_rowid s')\<rparr>, s'))))"

section \<open>The request handlers of \<^verbatim>\<open>backend/src/app.js\<close>\<close>

text \<open>
  A handler runs after the bootstrap promise has resolved (the first middleware waits for
  it), takes the request and the store, and gives the response and the store it leaves.
  Its \<open>try\<close> block is a function to an error or a response; the \<open>catch\<close> clause passes
  the error to \<open>handleError\<close>.
\<close>

record req_body =
  b_name :: jsval
  b_email :: jsval
  b_password :: jsval
  b_title :: jsval
  b_completed :: jsval

definition reply :: "nat \<Rightarrow> body_json \<Rightarrow> response" where
  "reply st b = \<lparr>status = st, body = b\<rparr>"

definition handleError :: "js_error \<Rightarrow> string \<Rightarrow> response" where
  "handleError error fallbackMessage =
     reply (case err_status error of None \<Rightarrow> 500 | Some st \<Rightarrow> if st = 0 then 500 else st)
       (Message (if err_message error = [] then fallbackMessage else err_message error))"

text \<open>\<^verbatim>\<open>v || ''\<close> and \<^verbatim>\<open>v ?? ''\<close>.\<close>

definition or_empty :: "jsval \<Rightarrow> jsval" where
  "or_empty v = (if truthy v then v else JStr [])"

fun nullish_or_empty :: "jsval \<Rightarrow> jsval" where
  "nullish_or_empty JUndefined = JStr []"
| "nullish_or_empty JNull = JStr []"
| "nullish_or_empty v = v"

text \<open>
  \<^verbatim>\<open>(req.body.f || '').trim()\<close>: a string is trimmed; any other value has no \<open>trim\<close> and
  the call throws a \<open>TypeError\<close> (the wording of such messages is the JavaScript
  engine's).
\<close>

fun call_trim :: "string \<Rightarrow> jsval \<Rightarrow> js_error + string" where
  "call_trim f (JStr s) = Inr (trim s)"
| "call_trim f _ =
     Inl (plain_error (''(req.body.'' @ f @ '' || '' @ [CHR 0x22, CHR 0x22] @ '').trim is not a function''))"

text \<open>Reading a property of \<open>undefined\<close>, as \<^verbatim>\<open>sanitizeUser(undefined)\<close> does.\<close>

definition undefined_read :: "string \<Rightarrow> js_error" where
  "undefined_read p =
     plain_error (''Cannot read properties of undefined (reading '' @ [CHR 0x27] @ p @ [CHR 0x27] @ '')'')"

text \<open>
  A row of the other table where a handler reads a user or a task. No statement of
  \<open>run_stmt\<close> returns one (\<open>SELECT\<close> on \<open>users\<close> gives user rows, on \<open>tasks\<close> task rows),
  so the branches that raise it are never taken.
\<close>

definition row_shape_error :: js_error where
  "row_shape_error = plain_error ''row of another table''"

text \<open>\<^verbatim>\<open>password.length < n\<close>: \<open>undefined < n\<close> is false.\<close>

fun length_below :: "jsval \<Rightarrow> nat \<Rightarrow> bool" where
  "length_below (JStr s) n = (length s < n)"
| "length_below (JArr xs) n = (length xs < n)"
| "length_below _ n = False"

text \<open>bcryptjs rejects an argument that is not a string.\<close>

fun hashPassword :: "env \<Rightarrow> jsval \<Rightarrow> js_error + string" where
  "hashPassword env (JStr p) = Inr (bcrypt_hash env p)"
| "hashPassword env v = Inl (plain_error (''Illegal arguments: '' @ typeof v @ '', number''))"

fun comparePassword :: "env \<Rightarrow> jsval \<Rightarrow> string \<Rightarrow> js_error + bool" where
  "comparePassword env (JStr p) hashed = Inr (bcrypt_compare env p hashed)"
| "comparePassword env v hashed =
     Inl (plain_error (''Illegal arguments: '' @ typeof v @ '', string''))"

text \<open>\<^verbatim>\<open>result.rows?.[0]\<close> and the truth value of \<^verbatim>\<open>existing.rows?.length\<close>.\<close>

fun first_row :: "rows_val \<Rightarrow> sql_row option" where
  "first_row (Rows (r # _)) = Some r"
| "first_row (Rows []) = None"
| "first_row (Header _ _) = None"

definition has_rows :: "qresult \<Rightarrow> bool" where
  "has_rows res = (case js_length (rows res) of None \<Rightarrow> False | Some n \<Rightarrow> 0 < n)"

definition ensureUser :: "env \<Rightarrow> string \<Rightarrow> store \<Rightarrow> (js_error + user_row) \<times> store" where
  "ensureUser env userId s =
     (case parseInt userId of
        None \<Rightarrow> (Inl (http_error 400 ''Invalid user id''), s)
      | Some n \<Rightarrow>
          (case query env (SelectUserById n) s of
             (Inl e, s1) \<Rightarrow> (Inl e, s1)
           | (Inr result, s1) \<Rightarrow>
               (case first_row (rows result) of
                  None \<Rightarrow> (Inl (http_error 404 ''User not found''), s1)
                | Some row \<Rightarrow>
                    (case row_user row of
                       None \<Rightarrow> (Inl row_shape_error, s1)
                     | Some user \<Rightarrow> (Inr user, s1)))))"

definition finish :: "string \<Rightarrow> (js_error + response) \<times> store \<Rightarrow> response \<times> store" where
  "finish fallbackMessage r =
     (case r of
        (Inl e, s) \<Rightarrow> (handleError e fallbackMessage, s)
      | (Inr resp, s) \<Rightarrow> (resp, s))"

subsection \<open>\<^verbatim>\<open>GET /api/health\<close>\<close>

text \<open>
  The handler is written over the query operation \<open>q\<close> it awaits. On the engines as
  modelled \<open>SELECT 1\<close> always succeeds; the real operation also rejects, for instance
  when the backend cannot be reached, and \<open>q\<close> ranges over such operations too.
  \<open>health\<close> is the handler on \<open>query\<close>. Its failure body is
  \<^verbatim>\<open>{ status: 'error', message: error.message }\<close>.
\<close>

definition health_with ::
  "(stmt \<Rightarrow> store \<Rightarrow> (js_error + qresult) \<times> store) \<Rightarrow> store \<Rightarrow> response \<times> store" where
  "health_with q s =
     (case q SelectOne s of
        (Inl e, s1) \<Rightarrow> (reply 500 (HealthError (err_message e)), s1)
      | (Inr _, s1) \<Rightarrow> (reply 200 HealthOk, s1))"

definition health :: "env \<Rightarrow> store \<Rightarrow> response \<times> store" where
  "health env s = health_with (query env) s"

subsection \<open>\<^verbatim>\<open>POST /api/auth/register\<close>\<close>

text \<open>The insert with its \<open>catch\<close>: the row \<^verbatim>\<open>created.rows[0]\<close>, or \<open>undefined\<close>.\<close>

definition register_insert ::
  "env \<Rightarrow> string \<Rightarrow> string \<Rightarrow> string \<Rightarrow> store \<Rightarrow> (js_error + sql_row option) \<times> store" where
  "register_insert env name email passwordHash s =
     (case query env (InsertUserReturning name email passwordHash) s of
        (Inr created, s1) \<Rightarrow> (Inr (first_row (rows created)), s1)
      | (Inl err, s1) \<Rightarrow>
          if err_code err = ''ER_PARSE_ERROR'' then
            (case query env (InsertUser name email passwordHash) s1 of
               (Inl e, s2) \<Rightarrow> (Inl e, s2)
             | (Inr _, s2) \<Rightarrow>
                 (case query env (SelectUserByEmail email) s2 of
                    (Inl e, s3) \<Rightarrow> (Inl e, s3)
                  | (Inr fetched, s3) \<Rightarrow> (Inr (first_row (rows fetched)), s3)))
          else (Inl err, s1))"

definition register_try :: "env \<Rightarrow> req_body \<Rightarrow> store \<Rightarrow> (js_error + response) \<times> store" where
  "register_try env b s =
     (case call_trim ''name'' (or_empty (b_name b)) of
        Inl e \<Rightarrow> (Inl e, s)
      | Inr name \<Rightarrow>
     (case call_trim ''email'' (or_empty (b_email b)) of
        Inl e \<Rightarrow> (Inl e, s)
      | Inr trimmed \<Rightarrow>
     (let email = toLowerCase trimmed;
          password = or_empty (b_password b)
      in if name = [] \<or> email = [] \<or> \<not> truthy password then
           (Inr (reply 400 (Message ''Name, email, and password are required'')), s)
         else if length_below password 6 then
           (Inr (reply 400 (Message ''Password must be at least 6 characters'')), s)
         else
     (case query env (SelectUserIdByEmail email) s of
        (Inl e, s1) \<Rightarrow> (Inl e, s1)
      | (Inr existing, s1) \<Rightarrow>
          if has_rows existing then (Inr (reply 409 (Message ''Email already registered'')), s1)
          else
     (case hashPassword env password of
        Inl e \<Rightarrow> (Inl e, s1)
      | Inr passwordHash \<Rightarrow>
     (case register_insert env name email passwordHash s1 of
        (Inl e, s2) \<Rightarrow> (Inl e, s2)
      | (Inr None, s2) \<Rightarrow> (Inl (undefined_read ''id''), s2)
      | (Inr (Some row), s2) \<Rightarrow>
          (case row_user row of
             None \<Rightarrow> (Inl row_shape_error, s2)
           | Some u \<Rightarrow> (Inr (reply 201 (UserPayload (sanitizeUser u))), s2))))))))"

definition register :: "env \<Rightarrow> req_body \<Rightarrow> store \<Rightarrow> response \<times> store" where
  "register env b s = finish ''Failed to register'' (register_try env b s)"

subsection \<open>\<^verbatim>\<open>POST /api/auth/login\<close>\<close>

definition login_try :: "env \<Rightarrow> req_body \<Rightarrow> store \<Rightarrow> (js_error + response) \<times> store" where
  "login_try env b s =
     (case call_trim ''email'' (or_empty (b_email b)) of
        Inl e \<Rightarrow> (Inl e, s)
      | Inr trimmed \<Rightarrow>
     (let email = toLowerCase trimmed;
          password = or_empty (b_password b)
      in if email = [] \<or> \<not> truthy password then
           (Inr (reply 400 (Message ''Email and password are required'')), s)
         else
     (case query env (SelectLoginByEmail email) s of
        (Inl e, s1) \<Rightarrow> (Inl e, s1)
      | (Inr result, s1) \<Rightarrow>
     (case first_row (rows result) of
        None \<Rightarrow> (Inr (reply 401 (Message ''Invalid credentials'')), s1)
      | Some row \<Rightarrow>
     (case row_user row of
        None \<Rightarrow> (Inl row_shape_error, s1)
      | Some user \<Rightarrow>
     (case comparePassword env password (u_password_hash user) of
        Inl e \<Rightarrow> (Inl e, s1)
      | Inr match \<Rightarrow>
          if \<not> match then (Inr (reply 401 (Message ''Invalid credentials'')), s1)
          else (Inr (reply 200 (UserPayload (sanitizeUser user))), s1)))))))"

definition login :: "env \<Rightarrow> req_body \<Rightarrow> store \<Rightarrow> response \<times> store" where
  "login env b s = finish ''Failed to login'' (login_try env b s)"

subsection \<open>\<^verbatim>\<open>GET /api/users/:userId/tasks\<close>\<close>

text \<open>\<^verbatim>\<open>result.rows.map(mapTask)\<close>: only an array has \<open>map\<close>.\<close>

fun map_rows :: "rows_val \<Rightarrow> js_error + task_json list" where
  "map_rows (Rows rs) =
     (case those (map row_task rs) of
        None \<Rightarrow> Inl row_shape_error
      | Some ts \<Rightarrow> Inr (map mapTask ts))"
| "map_rows (Header _ _) = Inl (plain_error ''result.rows.map is not a function'')"

definition list_tasks_try :: "env \<Rightarrow> string \<Rightarrow> store \<Rightarrow> (js_error + response) \<times> store" where
  "list_tasks_try env userId s =
     (case ensureUser env userId s of
        (Inl e, s1) \<Rightarrow> (Inl e, s1)
      | (Inr user, s1) \<Rightarrow>
     (case query env (SelectTasksByUser (u_id user)) s1 of
        (Inl e, s2) \<Rightarrow> (Inl e, s2)
      | (Inr result, s2) \<Rightarrow>
     (case map_rows (rows result) of
        Inl e \<Rightarrow> (Inl e, s2)
      | Inr ts \<Rightarrow> (Inr (reply 200 (TaskArray ts)), s2))))"

definition list_tasks :: "env \<Rightarrow> string \<Rightarrow> store \<Rightarrow> response \<times> store" where
  "list_tasks env userId s = finish ''Failed to load tasks'' (list_tasks_try env userId s)"

subsection \<open>\<^verbatim>\<open>POST /api/users/:userId/tasks\<close>\<close>

definition create_task_insert ::
  "env \<Rightarrow> int \<Rightarrow> string \<Rightarrow> store \<Rightarrow> (js_error + sql_row option) \<times> store" where
  "create_task_insert env uid title s =
     (case query env (InsertTaskReturning uid title) s of
        (Inr created, s1) \<Rightarrow> (Inr (first_row (rows created)), s1)
      | (Inl err, s1) \<Rightarrow>
          if err_code err = ''ER_PARSE_ERROR'' then
            (case query env (InsertTask uid title) s1 of
               (Inl e, s2) \<Rightarrow> (Inl e, s2)
             | (Inr _, s2) \<Rightarrow>
                 (case query env (SelectLastTaskOfUser uid) s2 of
                    (Inl e, s3) \<Rightarrow> (Inl e, s3)
                  | (Inr fetched, s3) \<Rightarrow> (Inr (first_row (rows fetched)), s3)))
          else (Inl err, s1))"

definition create_task_try ::
  "env \<Rightarrow> string \<Rightarrow> req_body \<Rightarrow> store \<Rightarrow> (js_error + response) \<times> store" where
  "create_task_try env userId b s =
     (case ensureUser env userId s of
        (Inl e, s1) \<Rightarrow> (Inl e, s1)
      | (Inr user, s1) \<Rightarrow>
     (case call_trim ''title'' (or_empty (b_title b)) of
        Inl e \<Rightarrow> (Inl e, s1)
      | Inr title \<Rightarrow>
          if title = [] then (Inr (reply 400 (Message ''Task title is required'')), s1)
          else
     (case create_task_insert env (u_id user) title s1 of
        (Inl e, s2) \<Rightarrow> (Inl e, s2)
      | (Inr None, s2) \<Rightarrow> (Inl (undefined_read ''id''), s2)
      | (Inr (Some row), s2) \<Rightarrow>
          (case row_task row of
             None \<Rightarrow> (Inl row_shape_error, s2)
           | Some t \<Rightarrow> (Inr (reply 201 (TaskPayload (mapTask t))), s2)))))"

definition create_task :: "env \<Rightarrow> string \<Rightarrow> req_body \<Rightarrow> store \<Rightarrow> response \<times> store" where
  "create_task env userId b s = finish ''Failed to create task'' (create_task_try env userId b s)"

subsection \<open>\<^verbatim>\<open>PUT /api/users/:userId/tasks/:taskId\<close>\<close>

definition update_task_try ::
  "env \<Rightarrow> string \<Rightarrow> string \<Rightarrow> req_body \<Rightarrow> store \<Rightarrow> (js_error + response) \<times> store" where
  "update_task_try env userId taskId b s =
     (case ensureUser env userId s of
        (Inl e, s1) \<Rightarrow> (Inl e, s1)
      | (Inr user, s1) \<Rightarrow>
     (case query env (SelectTaskByIdUser taskId (u_id user)) s1 of
        (Inl e, s2) \<Rightarrow> (Inl e, s2)
      | (Inr existing, s2) \<Rightarrow>
     (case first_row (rows existing) of
        None \<Rightarrow> (Inr (reply 404 (Message ''Task not found'')), s2)
      | Some row \<Rightarrow>
     (case row_task row of
        None \<Rightarrow> (Inl row_shape_error, s2)
      | Some current \<Rightarrow>
     (let hasTitle = (b_title b \<noteq> JUndefined);
          title = (if hasTitle then trim (js_String (nullish_or_empty (b_title b)))
                   else t_title current)
      in if hasTitle \<and> title = [] then
           (Inr (reply 400 (Message ''Task title cannot be empty'')), s2)
         else
     (let completed = (if typeof (b_completed b) = ''boolean'' then truthy (b_completed b)
                       else t_completed current)
      in
     (case query env (UpdateTaskReturning title completed taskId (u_id user)) s2 of
        (Inl e, s3) \<Rightarrow> (Inl e, s3)
      | (Inr updated, s3) \<Rightarrow>
     (case first_row (rows updated) of
        None \<Rightarrow> (Inl (undefined_read ''id''), s3)
      | Some urow \<Rightarrow>
     (case row_task urow of
        None \<Rightarrow> (Inl row_shape_error, s3)
      | Some t \<Rightarrow> (Inr (reply 200 (TaskPayload (mapTask t))), s3))))))))))"

definition update_task ::
  "env \<Rightarrow> string \<Rightarrow> string \<Rightarrow> req_body \<Rightarrow> store \<Rightarrow> response \<times> store" where
  "update_task env userId taskId b s =
     finish ''Failed to update task'' (update_task_try env userId taskId b s)"

subsection \<open>\<^verbatim>\<open>DELETE /api/users/:userId/tasks/:taskId\<close>\<close>

text \<open>\<^verbatim>\<open>!result.rowCount\<close>: true for \<open>0\<close> and for \<open>undefined\<close>.\<close>

definition no_row_count :: "qresult \<Rightarrow> bool" where
  "no_row_count res = (case rowCount res of None \<Rightarrow> True | Some n \<Rightarrow> n = 0)"

definition delete_task_try ::
  "env \<Rightarrow> string \<Rightarrow> string \<Rightarrow> store \<Rightarrow> (js_error + response) \<times> store" where
  "delete_task_try env userId taskId s =
     (case ensureUser env userId s of
        (Inl e, s1) \<Rightarrow> (Inl e, s1)
      | (Inr user, s1) \<Rightarrow>
     (case query env (DeleteTask taskId (u_id user)) s1 of
        (Inl e, s2) \<Rightarrow> (Inl e, s2)
      | (Inr result, s2) \<Rightarrow>
          if no_row_count result then (Inr (reply 404 (Message ''Task not found'')), s2)
          else (Inr (reply 204 NoBody), s2)))"

definition delete_task :: "env \<Rightarrow> string \<Rightarrow> string \<Rightarrow> store \<Rightarrow> response \<times> store" where
  "delete_task env userId taskId s =
     finish ''Failed to delete task'' (delete_task_try env userId taskId s)"

section \<open>Bootstrap: \<^verbatim>\<open>bootstrapDatabase\<close> of \<^verbatim>\<open>backend/src/db.js\<close>\<close>








section \<open>Classification of the statements, and example data\<close>

text \<open>
  Which statements carry a \<open>RETURNING\<close> clause, which call \<open>NOW()\<close>, and which are
  \<open>SELECT\<close>s; the lemmas \<open>text_returning\<close>, \<open>text_now\<close> and \<open>text_select\<close> below show
  that these tables agree with the tests on the statement texts.
\<close>

fun uses_returning :: "stmt \<Rightarrow> bool" where
  "uses_returning (InsertUserReturning _ _ _) = True"
| "uses_returning (InsertTaskReturning _ _) = True"
| "uses_returning (UpdateTaskReturning _ _ _ _) = True"
| "uses_returning _ = False"

fun uses_now :: "stmt \<Rightarrow> bool" where
  "uses_now (InsertUserReturning _ _ _) = True"
| "uses_now (InsertUser _ _ _) = True"
| "uses_now (InsertTaskReturning _ _) = True"
| "uses_now (InsertTask _ _) = True"
| "uses_now (UpdateTaskReturning _ _ _ _) = True"
| "uses_now _ = False"

fun is_select :: "stmt \<Rightarrow> bool" where
  "is_select (InsertUserReturning _ _ _) = False"
| "is_select (InsertUser _ _ _) = False"
| "is_select (InsertTaskReturning _ _) = False"
| "is_select (InsertTask _ _) = False"
| "is_select (UpdateTaskReturning _ _ _ _) = False"
| "is_select (DeleteTask _ _) = False"
| "is_select _ = True"

text \<open>The store after the driver has been handed a statement.\<close>

definition logged :: "stmt \<Rightarrow> store \<Rightarrow> store" where
  "logged st s = s\<lparr>sent := sent s @ [replace_placeholders (sql_text st)]\<rparr>"

text \<open>
  Example surroundings and an example store: two users, Ann (id 1) and Bob (id 2), and
  one open task of each. The example digest of a password is the password behind a
  fixed prefix.
\<close>

definition example_env :: "bool \<Rightarrow> bool \<Rightarrow> env" where
  "example_env mysql now =
     \<lparr>useMySql = mysql, sqlite_has_now = now, id_of_text = parseInt,
      bcrypt_hash = (\<lambda>p. ''$2a$10$'' @ p),
      bcrypt_compare = (\<lambda>p h. h = ''$2a$10$'' @ p)\<rparr>"

definition ann_row :: user_row where
  "ann_row =
     \<lparr>u_id = 1, u_name = ''Ann'', u_email = ''ann@x.com'',
      u_password_hash = ''$2a$10$secret1'', u_created_at = 100, u_updated_at = 100\<rparr>"

definition bob_row :: user_row where
  "bob_row =
     \<lparr>u_id = 2, u_name = ''Bob'', u_email = ''bob@x.com'',
      u_password_hash = ''$2a$10$hunter22'', u_created_at = 110, u_updated_at = 110\<rparr>"

definition example_store :: store where
  "example_store =
     \<lparr>users = [ann_row, bob_row],
      tasks =
        [\<lparr>t_id = 1, t_user_id = 1, t_title = ''Write spec'', t_completed = False,
          t_created_at = 120, t_updated_at = 120\<rparr>,
         \<lparr>t_id = 2, t_user_id = 2, t_title = ''Buy milk'', t_completed = False,
          t_created_at = 130, t_updated_at = 130\<rparr>],
      next_user_id = 3, next_task_id = 3, last_rowid = 2, clock = 200, sent = []\<rparr>"

definition empty_store :: store where
  "empty_store =
     \<lparr>users = [], tasks = [], next_user_id = 1, next_task_id = 1, last_rowid = 0,
      clock = 100, sent = []\<rparr>"

definition body_of :: "jsval \<Rightarrow> jsval \<Rightarrow> jsval \<Rightarrow> jsval \<Rightarrow> jsval \<Rightarrow> req_body" where
  "body_of n e p t c = \<lparr>b_name = n, b_email = e, b_password = p, b_title = t, b_completed = c\<rparr>"




text \<open>A query operation whose backend cannot be reached: every statement is rejected.\<close>

definition unreachable_backend :: "stmt \<Rightarrow> store \<Rightarrow> (js_error + qresult) \<times> store" where
  "unreachable_backend st s =
     (Inl (driver_error ''ECONNREFUSED'' ''connect ECONNREFUSED 127.0.0.1:3306''), s)"




section \<open>Registered emails\<close>




text \<open>One statement leaves the user table alone or appends a row whose email no row matched.\<close>

definition user_step :: "env \<Rightarrow> string \<Rightarrow> user_row list \<Rightarrow> user_row list \<Rightarrow> bool" where
  "user_step env e us us' =
     (us' = us \<or>
      (filter (\<lambda>u. email_eq env (u_email u) e) us = [] \<and>
       us' \<noteq> [] \<and> butlast us' = us \<and> u_email (last us') = e))"

section \<open>Shapes of responses\<close>

text \<open>
  A response is either below status 400 or carries a single message string and nothing
  else; \<open>message_of\<close> reads the message text of a response.
\<close>

definition error_shape :: "response \<Rightarrow> bool" where
  "error_shape r = (status r < 400 \<or> (case body r of Message _ \<Rightarrow> True | _ \<Rightarrow> False))"

definition message_of :: "response \<Rightarrow> string" where
  "message_of r = (case body r of Message m \<Rightarrow> m | HealthError m \<Rightarrow> m | _ \<Rightarrow> [])"

section \<open>The statement texts\<close>

lemma text_returning:
  "contains ''RETURNING'' (replace_placeholders (sql_text st)) = uses_returning st"
  by (cases st; hypsubst_thin; code_simp)

lemma text_now:
  "contains ''NOW()'' (replace_placeholders (sql_text st)) = uses_now st"
  by (cases st; hypsubst_thin; code_simp)

lemma text_select:
  "starts_with ''select'' (toLowerCase (trim (sql_text st))) = is_select st"
  by (cases st; hypsubst_thin; code_simp)

declare sql_text.simps [simp del]

section \<open>What \<^verbatim>\<open>query\<close> returns\<close>

lemma driver_eq:
  "driver env st s =
     (if useMySql env \<and> uses_returning st
      then (Inl (mysql_parse_error (replace_placeholders (sql_text st))), logged st s)
      else if \<not> useMySql env \<and> uses_now st \<and> \<not> sqlite_has_now env
        then (Inl sqlite_no_such_function, logged st s)
      else (case run_stmt env st (logged st s) of
              Inl e \<Rightarrow> (Inl e, logged st s)
            | Inr (out, s2) \<Rightarrow> (Inr out, s2)))"
  unfolding driver_def logged_def Let_def text_returning text_now by simp

lemma query_mysql:
  "useMySql env \<Longrightarrow>
   query env st s =
     (case driver env st s of
        (Inl e, s') \<Rightarrow> (Inl e, s')
      | (Inr out, s') \<Rightarrow>
          (Inr \<lparr>rows = mysql_execute_rows out,
                rowCount = js_length (mysql_execute_rows out), lastID = None\<rparr>, s'))"
  by (simp add: query_def)

lemma query_sqlite:
  "\<not> useMySql env \<Longrightarrow>
   query env st s =
     (case driver env st s of
        (Inl e, s') \<Rightarrow> (Inl e, s')
      | (Inr out, s') \<Rightarrow>
          (Inr (if is_select st
                then \<lparr>rows = Rows (sqlite_all_rows out),
                      rowCount = Some (length (sqlite_all_rows out)), lastID = None\<rparr>
                else \<lparr>rows = Rows [], rowCount = Some (sqlite_run_changes out),
                      lastID = Some (last_rowid s')\<rparr>), s'))"
  by (simp add: query_def Let_def text_select split: prod.splits sum.splits)

lemma logged_fields [simp]:
  "users (logged st s) = users s"
  "tasks (logged st s) = tasks s"
  "next_user_id (logged st s) = next_user_id s"
  "next_task_id (logged st s) = next_task_id s"
  "last_rowid (logged st s) = last_rowid s"
  "clock (logged st s) = clock s"
  "sent (logged st s) = sent s @ [replace_placeholders (sql_text st)]"
  by (simp_all add: logged_def)

lemma users_by_id_logged [simp]: "users_by_id n (logged st s) = users_by_id n s"
  by (simp add: users_by_id_def)

lemma users_by_email_logged [simp]:
  "users_by_email env e (logged st s) = users_by_email env e s"
  by (simp add: users_by_email_def)

lemma query_select_user_by_id:
  "query env (SelectUserById n) s =
     (Inr \<lparr>rows = Rows (map UserRow (users_by_id n s)),
           rowCount = Some (length (users_by_id n s)), lastID = None\<rparr>,
      logged (SelectUserById n) s)"
  by (cases "useMySql env") (simp_all add: query_mysql query_sqlite driver_eq)

lemma query_select_task:
  "query env (SelectTaskByIdUser tid uid) s =
     (Inr \<lparr>rows = Rows (map TaskRow (filter (task_matches env tid uid) (tasks s))),
           rowCount = Some (length (filter (task_matches env tid uid) (tasks s))),
           lastID = None\<rparr>,
      logged (SelectTaskByIdUser tid uid) s)"
  by (cases "useMySql env") (simp_all add: query_mysql query_sqlite driver_eq)

lemma query_select_login:
  "query env (SelectLoginByEmail e) s =
     (Inr \<lparr>rows = Rows (map UserRow (users_by_email env e s)),
           rowCount = Some (length (users_by_email env e s)), lastID = None\<rparr>,
      logged (SelectLoginByEmail e) s)"
  by (cases "useMySql env") (simp_all add: query_mysql query_sqlite driver_eq)


lemma query_delete:
  "query env (DeleteTask tid uid) s =
     (Inr (if useMySql env
           then \<lparr>rows = Header (length (filter (task_matches env tid uid) (tasks s))) 0,
                 rowCount = None, lastID = None\<rparr>
           else \<lparr>rows = Rows [],
                 rowCount = Some (length (filter (task_matches env tid uid) (tasks s))),
                 lastID = Some (last_rowid s)\<rparr>),
      (logged (DeleteTask tid uid) s)
        \<lparr>tasks := filter (\<lambda>t. \<not> task_matches env tid uid t) (tasks s)\<rparr>)"
  by (cases "useMySql env") (simp_all add: query_mysql query_sqlite driver_eq)

section \<open>Resolving the path user\<close>

lemma ensureUser_eq:
  "ensureUser env userId s =
     (case parseInt userId of
        None \<Rightarrow> (Inl (http_error 400 ''Invalid user id''), s)
      | Some n \<Rightarrow>
          (case users_by_id n s of
             [] \<Rightarrow> (Inl (http_error 404 ''User not found''), logged (SelectUserById n) s)
           | u # _ \<Rightarrow> (Inr u, logged (SelectUserById n) s)))"
  by (auto simp add: ensureUser_def query_select_user_by_id split: option.splits list.splits)

lemma handleError_http [simp]:
  "handleError (http_error 400 m) fb = reply 400 (Message (if m = [] then fb else m))"
  "handleError (http_error 404 m) fb = reply 404 (Message (if m = [] then fb else m))"
  by (simp_all add: handleError_def http_error_def)

lemma users_by_id_hd: "users_by_id n s = u # us \<Longrightarrow> u_id u = n"
  by (metis (mono_tags, lifting) Cons_eq_filterD users_by_id_def)

text \<open>
  C10. On each of the four task endpoints, a path user id that \<open>parseInt\<close> reads as
  \<open>NaN\<close> is answered with status 400 and the message \<open>Invalid user id\<close>, and the store
  is returned as it was: no statement has been handed to the driver (the list \<open>sent\<close>
  is part of the store). The status is 400, not the 404 of an unknown user.
\<close>

theorem invalid_user_id_rejected_before_any_query:
  assumes "parseInt userId = None"
  shows "list_tasks env userId s = (reply 400 (Message ''Invalid user id''), s)
       \<and> create_task env userId b s = (reply 400 (Message ''Invalid user id''), s)
       \<and> update_task env userId taskId b s = (reply 400 (Message ''Invalid user id''), s)
       \<and> delete_task env userId taskId s = (reply 400 (Message ''Invalid user id''), s)"
  using assms
  by (simp add: list_tasks_def list_tasks_try_def create_task_def create_task_try_def
      update_task_def update_task_try_def delete_task_def delete_task_try_def
      ensureUser_eq finish_def)

theorem invalid_user_id_witness:
  "parseInt ''abc'' = None
   \<and> list_tasks (example_env True False) ''abc'' example_store
       = (reply 400 (Message ''Invalid user id''), example_store)
   \<and> create_task (example_env False False) ''abc''
        (body_of JUndefined JUndefined JUndefined (JStr ''Buy milk'') JUndefined) example_store
       = (reply 400 (Message ''Invalid user id''), example_store)
   \<and> update_task (example_env True False) ''abc'' ''1''
        (body_of JUndefined JUndefined JUndefined JUndefined (JBool True)) example_store
       = (reply 400 (Message ''Invalid user id''), example_store)
   \<and> delete_task (example_env False False) ''abc'' ''1'' example_store
       = (reply 400 (Message ''Invalid user id''), example_store)"
proof -
  have nan: "parseInt ''abc'' = None"
    by (simp add: parseInt_def is_ws_def is_digit_def)
  show ?thesis
    using nan
      invalid_user_id_rejected_before_any_query [OF nan, of "example_env True False"
        example_store]
      invalid_user_id_rejected_before_any_query [OF nan, of "example_env False False"
        example_store]
    by simp
qed

text \<open>
  C1. Update and delete on \<open>/api/users/:userId/tasks/:taskId\<close>, on either backend:
  when the path user exists and no task has both the path's task id and that user as
  owner (the task is missing, or it belongs to someone else), the response is 404
  \<open>Task not found\<close> and the task table is the same list of rows as before, so a task
  of another owner keeps its title, completed flag and timestamps.
\<close>

theorem foreign_or_missing_task_is_not_found:
  assumes user: "parseInt userId = Some n" "\<exists>u \<in> set (users s). u_id u = n"
      and none: "\<forall>t \<in> set (tasks s). \<not> task_matches env taskId n t"
  shows "fst (update_task env userId taskId b s) = reply 404 (Message ''Task not found'')
       \<and> tasks (snd (update_task env userId taskId b s)) = tasks s
       \<and> fst (delete_task env userId taskId s) = reply 404 (Message ''Task not found'')
       \<and> tasks (snd (delete_task env userId taskId s)) = tasks s"
proof -
  from user(2) obtain u us where u: "users_by_id n s = u # us"
    by (cases "users_by_id n s") (auto simp: users_by_id_def filter_empty_conv)
  then have uid: "u_id u = n" by (rule users_by_id_hd)
  from none have nomatch: "filter (task_matches env taskId n) (tasks s) = []"
    by (simp add: filter_empty_conv)
  from none have keep: "filter (\<lambda>t. \<not> task_matches env taskId n t) (tasks s) = tasks s"
    by (simp add: filter_id_conv)
  have upd: "update_task env userId taskId b s =
      (reply 404 (Message ''Task not found''),
       logged (SelectTaskByIdUser taskId n) (logged (SelectUserById n) s))"
    by (simp add: update_task_def update_task_try_def ensureUser_eq user(1) u uid
        query_select_task nomatch finish_def)
  have del: "delete_task env userId taskId s =
      (reply 404 (Message ''Task not found''),
       (logged (DeleteTask taskId n) (logged (SelectUserById n) s))\<lparr>tasks := tasks s\<rparr>)"
    by (simp add: delete_task_def delete_task_try_def ensureUser_eq user(1) u uid
        query_delete nomatch keep finish_def no_row_count_def)
  show ?thesis by (simp add: upd del)
qed

text \<open>Bob (user 2) addresses Ann's task 1, on the networked and on the embedded backend.\<close>

theorem foreign_task_witness:
  "fst (update_task (example_env True False) ''2'' ''1''
          (body_of JUndefined JUndefined JUndefined (JStr ''Mine now'') (JBool True))
          example_store) = reply 404 (Message ''Task not found'')
   \<and> tasks (snd (update_task (example_env True False) ''2'' ''1''
          (body_of JUndefined JUndefined JUndefined (JStr ''Mine now'') (JBool True))
          example_store)) = tasks example_store
   \<and> fst (delete_task (example_env False False) ''2'' ''1'' example_store)
       = reply 404 (Message ''Task not found'')
   \<and> tasks (snd (delete_task (example_env False False) ''2'' ''1'' example_store))
       = tasks example_store"
proof -
  have p: "parseInt ''2'' = Some 2" "parseInt ''1'' = Some 1"
    by (simp_all add: parseInt_def is_ws_def is_digit_def digit_val_def)
  have u: "\<exists>u \<in> set (users example_store). u_id u = 2"
    by (simp add: example_store_def bob_row_def)
  have t: "\<forall>t \<in> set (tasks example_store). \<not> task_matches (example_env my now) ''1'' 2 t"
    for my now
    by (simp add: example_store_def task_matches_def example_env_def p)
  show ?thesis
    using foreign_or_missing_task_is_not_found [OF p(1) u t, of True False]
      foreign_or_missing_task_is_not_found [OF p(1) u t, of False False]
    by simp
qed

section \<open>Login\<close>



lemma toLowerCase_Nil [simp]: "toLowerCase [] = []"
  by (simp add: toLowerCase_def)

lemma trim_Nil [simp]: "trim [] = []"
  by (simp add: trim_def)




lemma login_shape:
  assumes "b_email b = JStr e" "toLowerCase (trim e) \<noteq> []" "truthy (b_password b)"
  shows "login env b s =
     (case users_by_email env (toLowerCase (trim e)) s of
        [] \<Rightarrow> (reply 401 (Message ''Invalid credentials''), logged (SelectLoginByEmail (toLowerCase (trim e))) s)
      | u # _ \<Rightarrow>
          (case comparePassword env (b_password b) (u_password_hash u) of
             Inl err \<Rightarrow> (handleError err ''Failed to login'', logged (SelectLoginByEmail (toLowerCase (trim e))) s)
           | Inr m \<Rightarrow> (if m then reply 200 (UserPayload (sanitizeUser u))
                        else reply 401 (Message ''Invalid credentials''),
                        logged (SelectLoginByEmail (toLowerCase (trim e))) s)))"
proof -
  from assms(2) have ne: "e \<noteq> []" by (auto simp: trim_def toLowerCase_def)
  show ?thesis
    using assms ne
    by (simp add: login_def login_try_def or_empty_def Let_def query_select_login finish_def
           split: list.splits sum.splits)
qed

text \<open>
  Where both passwords are texts, the two failures look alike: an email that matches no
  stored user, and a stored email with a password bcrypt does not accept, are both
  answered with status 401 and the message \<open>Invalid credentials\<close>.
\<close>

lemma login_failures_alike_for_text_passwords:
  assumes unknown: "b_email b1 = JStr e1" "toLowerCase (trim e1) \<noteq> []" "truthy (b_password b1)"
                   "users_by_email env (toLowerCase (trim e1)) s1 = []"
      and wrong: "b_email b2 = JStr e2" "toLowerCase (trim e2) \<noteq> []"
                 "users_by_email env (toLowerCase (trim e2)) s2 = u # us"
                 "b_password b2 = JStr p2" "p2 \<noteq> []"
                 "\<not> bcrypt_compare env p2 (u_password_hash u)"
  shows "fst (login env b1 s1) = reply 401 (Message ''Invalid credentials'')
       \<and> fst (login env b2 s2) = fst (login env b1 s1)"
proof -
  have one: "fst (login env b1 s1) = reply 401 (Message ''Invalid credentials'')"
    using unknown by (simp add: login_shape)
  have two: "fst (login env b2 s2) = reply 401 (Message ''Invalid credentials'')"
    using wrong by (simp add: login_shape)
  show ?thesis by (simp add: one two)
qed

text \<open>
  C4, evaluated with the number 1234567 as password, on both backends. For the stored
  email \<open>ann@x.com\<close> the handler passes the number to bcrypt, which rejects an argument
  that is not a string, and the answer is 500 \<open>Illegal arguments: number, string\<close>.
  For an email no user has, the answer is 401 \<open>Invalid credentials\<close>. The two
  responses differ, so they tell whether the email is registered.
\<close>

theorem login_with_number_password_reveals_email:
  "fst (login (example_env True False)
      (body_of JUndefined (JStr ''ann@x.com'') (JNum 1234567) JUndefined JUndefined)
      example_store) = reply 500 (Message ''Illegal arguments: number, string'')
   \<and> fst (login (example_env True False)
      (body_of JUndefined (JStr ''nobody@x.com'') (JNum 1234567) JUndefined JUndefined)
      example_store) = reply 401 (Message ''Invalid credentials'')
   \<and> fst (login (example_env False False)
      (body_of JUndefined (JStr ''ann@x.com'') (JNum 1234567) JUndefined JUndefined)
      example_store) = reply 500 (Message ''Illegal arguments: number, string'')
   \<and> fst (login (example_env False False)
      (body_of JUndefined (JStr ''nobody@x.com'') (JNum 1234567) JUndefined JUndefined)
      example_store) = reply 401 (Message ''Invalid credentials'')"
  by code_simp

section \<open>Registration and the uniqueness of emails\<close>

lemma user_step_refl [simp]: "user_step env e us us"
  by (simp add: user_step_def)

























section \<open>Updating a task\<close>

lemma typeof_boolean: "(typeof v = ''boolean'') = (\<exists>c. v = JBool c)"
  by (cases v) simp_all

lemma non_boolean_same:
  assumes "typeof v \<noteq> ''boolean''"
  shows "update_task env userId taskId (b\<lparr>b_completed := v\<rparr>) s
       = update_task env userId taskId (b\<lparr>b_completed := JUndefined\<rparr>) s"
  using assms
  by (simp add: update_task_def update_task_try_def Let_def
      split: sum.splits prod.splits option.splits)

lemma query_update:
  "query env (UpdateTaskReturning title c tid uid) s =
     (if useMySql env
      then (Inl (mysql_parse_error
                  (replace_placeholders (sql_text (UpdateTaskReturning title c tid uid)))),
            logged (UpdateTaskReturning title c tid uid) s)
      else if \<not> sqlite_has_now env
      then (Inl sqlite_no_such_function, logged (UpdateTaskReturning title c tid uid) s)
      else (Inr \<lparr>rows = Rows [],
                 rowCount = Some (length (filter (task_matches env tid uid) (tasks s))),
                 lastID = Some (last_rowid s)\<rparr>,
            (logged (UpdateTaskReturning title c tid uid) s)
              \<lparr>tasks := map (\<lambda>t. if task_matches env tid uid t
                                   then t\<lparr>t_title := title, t_completed := c,
                                          t_updated_at := clock s\<rparr>
                                   else t) (tasks s)\<rparr>))"
  by (cases "useMySql env") (simp_all add: query_mysql query_sqlite driver_eq)

lemma same_task_id:
  "distinct (map t_id ts) \<Longrightarrow> t \<in> set ts \<Longrightarrow> t' \<in> set ts \<Longrightarrow> t_id t = t_id t' \<Longrightarrow> t = t'"
  by (meson distinct_map inj_on_def)

lemma update_task_owned:
  assumes user: "parseInt userId = Some n" "users_by_id n s = u # us"
      and task: "filter (task_matches env taskId n) (tasks s) = cur # rest"
      and title: "b_title b = JUndefined \<or> trim (js_String (nullish_or_empty (b_title b))) \<noteq> []"
  shows "status (fst (update_task env userId taskId b s)) = 500
       \<and> tasks (snd (update_task env userId taskId b s)) =
           (if \<not> useMySql env \<and> sqlite_has_now env
            then map (\<lambda>t. if task_matches env taskId n t
                           then t\<lparr>t_title := (if b_title b \<noteq> JUndefined
                                               then trim (js_String (nullish_or_empty (b_title b)))
                                               else t_title cur),
                                  t_completed := (if typeof (b_completed b) = ''boolean''
                                                  then truthy (b_completed b)
                                                  else t_completed cur),
                                  t_updated_at := clock s\<rparr>
                           else t) (tasks s)
            else tasks s)"
proof -
  from user(2) have uid: "u_id u = n" by (rule users_by_id_hd)
  show ?thesis
    using user(1) title
    by (auto simp: update_task_def update_task_try_def ensureUser_eq user(2) uid
        query_select_task task Let_def query_update finish_def handleError_def reply_def
        mysql_parse_error_def sqlite_no_such_function_def driver_error_def
        undefined_read_def plain_error_def)
qed

text \<open>
  C7, as amended. An update request whose \<open>completed\<close> field is present but not a
  boolean is not rejected: the handler takes the field as absent, so the response and
  the store are exactly those of the same request without the field. In particular, on
  a task the path user owns, with the title omitted or non-empty after trimming, the
  status is not 400, and (task ids being distinct) no stored completed flag changes.
\<close>

theorem non_boolean_completed_is_ignored:
  assumes "typeof (b_completed b) \<noteq> ''boolean''"
  shows "update_task env userId taskId b s
           = update_task env userId taskId (b\<lparr>b_completed := JUndefined\<rparr>) s
       \<and> (parseInt userId = Some n \<and> (\<exists>u \<in> set (users s). u_id u = n) \<and>
          (\<exists>t \<in> set (tasks s). task_matches env taskId n t) \<and>
          distinct (map t_id (tasks s)) \<and>
          (b_title b = JUndefined \<or> trim (js_String (nullish_or_empty (b_title b))) \<noteq> [])
          \<longrightarrow> status (fst (update_task env userId taskId b s)) \<noteq> 400
            \<and> map t_completed (tasks (snd (update_task env userId taskId b s)))
                = map t_completed (tasks s))"
proof (intro conjI impI)
  from non_boolean_same [OF assms, of env userId taskId b s]
  show "update_task env userId taskId b s
           = update_task env userId taskId (b\<lparr>b_completed := JUndefined\<rparr>) s"
    by simp
next
  assume a: "parseInt userId = Some n \<and> (\<exists>u \<in> set (users s). u_id u = n) \<and>
          (\<exists>t \<in> set (tasks s). task_matches env taskId n t) \<and>
          distinct (map t_id (tasks s)) \<and>
          (b_title b = JUndefined \<or> trim (js_String (nullish_or_empty (b_title b))) \<noteq> [])"
  then obtain u us where u: "users_by_id n s = u # us"
    by (cases "users_by_id n s") (auto simp: users_by_id_def filter_empty_conv)
  from a obtain cur rest where cur: "filter (task_matches env taskId n) (tasks s) = cur # rest"
    by (cases "filter (task_matches env taskId n) (tasks s)") (auto simp: filter_empty_conv)
  then have "cur \<in> set (filter (task_matches env taskId n) (tasks s))" by simp
  then have cur_in: "cur \<in> set (tasks s)" "task_matches env taskId n cur"
    by simp_all
  have flag: "t_completed t = t_completed cur"
    if "t \<in> set (tasks s)" "task_matches env taskId n t" for t
  proof -
    from that(2) cur_in(2) have "t_id t = t_id cur" by (simp add: task_matches_def)
    with a that(1) cur_in(1) have "t = cur" using same_task_id by blast
    then show ?thesis by simp
  qed
  note owned = update_task_owned [OF conjunct1 [OF a] u cur, of b]
  from a owned show "status (fst (update_task env userId taskId b s)) \<noteq> 400" by simp
  from a owned assms flag
  show "map t_completed (tasks (snd (update_task env userId taskId b s)))
          = map t_completed (tasks s)"
    by (auto simp: comp_def)
qed

text \<open>The text \<open>yes\<close> as completed flag, on an embedded engine that executes the update.\<close>

theorem non_boolean_completed_witness:
  "update_task (example_env False True) ''1'' ''1''
       (body_of JUndefined JUndefined JUndefined (JStr ''Write the spec'') (JStr ''yes''))
       example_store
     = update_task (example_env False True) ''1'' ''1''
       (body_of JUndefined JUndefined JUndefined (JStr ''Write the spec'') JUndefined)
       example_store
   \<and> status (fst (update_task (example_env False True) ''1'' ''1''
       (body_of JUndefined JUndefined JUndefined (JStr ''Write the spec'') (JStr ''yes''))
       example_store)) \<noteq> 400
   \<and> map t_completed (tasks (snd (update_task (example_env False True) ''1'' ''1''
       (body_of JUndefined JUndefined JUndefined (JStr ''Write the spec'') (JStr ''yes''))
       example_store))) = [False, False]"
proof -
  let ?E = "example_env False True"
  let ?b = "body_of JUndefined JUndefined JUndefined (JStr ''Write the spec'') (JStr ''yes'')"
  have ty: "typeof (b_completed ?b) \<noteq> ''boolean''"
    by (simp add: body_of_def)
  have p: "parseInt ''1'' = Some 1"
    by (simp add: parseInt_def is_ws_def is_digit_def digit_val_def)
  have u: "\<exists>u \<in> set (users example_store). u_id u = 1"
    by (simp add: example_store_def ann_row_def)
  have t: "\<exists>t \<in> set (tasks example_store). task_matches ?E ''1'' 1 t"
    by (simp add: example_store_def task_matches_def example_env_def p)
  have d: "distinct (map t_id (tasks example_store))"
    by (simp add: example_store_def)
  have ti: "trim (js_String (nullish_or_empty (b_title ?b))) \<noteq> []"
    by (simp add: body_of_def trim_def is_ws_def)
  have c: "map t_completed (tasks example_store) = [False, False]"
    by (simp add: example_store_def)
  have upd: "?b\<lparr>b_completed := JUndefined\<rparr>
      = body_of JUndefined JUndefined JUndefined (JStr ''Write the spec'') JUndefined"
    by (simp add: body_of_def)
  from non_boolean_completed_is_ignored [OF ty, of ?E "''1''" "''1''" example_store 1]
    p u t d ti c upd
  show ?thesis by metis
qed

text \<open>
  C7 as stated fails: a completed field holding the text \<open>yes\<close> (networked backend) or the
  number 1 (embedded backend) is answered with status 500, not with 400.
\<close>

theorem non_boolean_completed_not_rejected:
  "status (fst (update_task (example_env True False) ''1'' ''1''
       (body_of JUndefined JUndefined JUndefined JUndefined (JStr ''yes'')) example_store)) = 500
   \<and> status (fst (update_task (example_env False False) ''1'' ''1''
       (body_of JUndefined JUndefined JUndefined JUndefined (JNum 1)) example_store)) = 500"
  by code_simp

text \<open>
  C6, evaluated on the networked backend. Ann (user 1) owns task 1, which is open; she
  sends \<open>{completed: true}\<close> without a title. The statement
  \<open>UPDATE ... RETURNING ...\<close> is rejected, the update handler has no fallback for it,
  and the answer is 500 with the task table as it was: the completed flag is still
  false and the update timestamp has not moved.
\<close>

theorem networked_update_stores_nothing:
  "status (fst (update_task (example_env True False) ''1'' ''1''
       (body_of JUndefined JUndefined JUndefined JUndefined (JBool True)) example_store)) = 500
   \<and> tasks (snd (update_task (example_env True False) ''1'' ''1''
       (body_of JUndefined JUndefined JUndefined JUndefined (JBool True)) example_store))
     = tasks example_store"
  by code_simp

section \<open>Error responses\<close>

lemma error_shape_handleError: "error_shape (handleError e fb)"
  by (simp add: error_shape_def handleError_def reply_def)

lemma error_shape_finish:
  "(\<And>resp s'. x = (Inr resp, s') \<Longrightarrow> error_shape resp) \<Longrightarrow> error_shape (fst (finish fb x))"
  by (cases x) (auto simp: finish_def error_shape_handleError split: sum.splits)

lemma error_shape_reply [simp]:
  "error_shape (reply st (Message m))"
  "st < 400 \<Longrightarrow> error_shape (reply st b)"
  by (simp_all add: error_shape_def reply_def)

lemma register_try_shape: "register_try env b s = (Inr resp, s') \<Longrightarrow> error_shape resp"
  unfolding register_try_def Let_def
  by (auto split: sum.splits prod.splits option.splits if_splits)

lemma login_try_shape: "login_try env b s = (Inr resp, s') \<Longrightarrow> error_shape resp"
  unfolding login_try_def Let_def
  by (auto split: sum.splits prod.splits option.splits if_splits)

lemma list_tasks_try_shape: "list_tasks_try env userId s = (Inr resp, s') \<Longrightarrow> error_shape resp"
  unfolding list_tasks_try_def Let_def
  by (auto split: sum.splits prod.splits option.splits if_splits)

lemma create_task_try_shape: "create_task_try env userId b s = (Inr resp, s') \<Longrightarrow> error_shape resp"
  unfolding create_task_try_def Let_def
  by (auto split: sum.splits prod.splits option.splits if_splits)

lemma update_task_try_shape: "update_task_try env userId taskId b s = (Inr resp, s') \<Longrightarrow> error_shape resp"
  unfolding update_task_try_def Let_def
  by (auto split: sum.splits prod.splits option.splits if_splits)

lemma delete_task_try_shape: "delete_task_try env userId taskId s = (Inr resp, s') \<Longrightarrow> error_shape resp"
  unfolding delete_task_try_def Let_def
  by (auto split: sum.splits prod.splits option.splits if_splits)

lemma health_succeeds: "health env s = (reply 200 HealthOk, logged SelectOne s)"
  by (cases "useMySql env")
     (simp_all add: health_def health_with_def query_mysql query_sqlite driver_eq)

text \<open>
  C9, as amended. A request that one of the JSON route handlers answers after an
  internal error (one without a status of its own) gets status 500 and a body that
  holds the thrown error's own message text and no stack trace or other field of the
  error. For register, login and the four task handlers every response with a status
  of 400 or more is a single message string, and the \<open>catch\<close> clause puts the error's
  message there, the fallback text only when that is empty. The health handler answers
  a rejected query with \<^verbatim>\<open>{status: 'error', message}\<close>, the message again the error's
  own; on the engines as modelled its query succeeds. So a statement the driver rejects
  is reported in the driver's words.
\<close>

theorem error_responses_carry_a_message_only:
  "error_shape (fst (register env b s))
   \<and> error_shape (fst (login env b s))
   \<and> error_shape (fst (list_tasks env userId s))
   \<and> error_shape (fst (create_task env userId b s))
   \<and> error_shape (fst (update_task env userId taskId b s))
   \<and> error_shape (fst (delete_task env userId taskId s))
   \<and> (err_status e = None \<longrightarrow>
        finish fb (Inl e, s)
          = (reply 500 (Message (if err_message e = [] then fb else err_message e)), s))
   \<and> (q SelectOne s = (Inl e, s1) \<longrightarrow>
        health_with q s = (reply 500 (HealthError (err_message e)), s1))
   \<and> (fst (health_with q s) = reply 200 HealthOk
        \<or> fst (health_with q s) = reply 500 (HealthError (message_of (fst (health_with q s)))))
   \<and> fst (health env s) = reply 200 HealthOk"
proof -
  have caught: "err_status e = None \<longrightarrow>
        finish fb (Inl e, s)
          = (reply 500 (Message (if err_message e = [] then fb else err_message e)), s)"
    by (simp add: finish_def handleError_def)
  have failed: "q SelectOne s = (Inl e, s1) \<longrightarrow>
        health_with q s = (reply 500 (HealthError (err_message e)), s1)"
    by (simp add: health_with_def)
  have either: "fst (health_with q s) = reply 200 HealthOk
        \<or> fst (health_with q s) = reply 500 (HealthError (message_of (fst (health_with q s))))"
    by (cases "q SelectOne s")
       (auto simp: health_with_def message_of_def reply_def split: sum.splits)
  have six: "error_shape (fst (register env b s))
      \<and> error_shape (fst (login env b s))
      \<and> error_shape (fst (list_tasks env userId s))
      \<and> error_shape (fst (create_task env userId b s))
      \<and> error_shape (fst (update_task env userId taskId b s))
      \<and> error_shape (fst (delete_task env userId taskId s))"
    by (simp add: register_def login_def list_tasks_def create_task_def update_task_def
        delete_task_def error_shape_finish register_try_shape login_try_shape
        list_tasks_try_shape create_task_try_shape update_task_try_shape
        delete_task_try_shape)
  from caught failed either six show ?thesis
    by (simp only: health_succeeds fst_conv simp_thms)
qed

text \<open>
  An embedded engine without \<open>NOW()\<close> rejects a statement, and an unreachable backend
  rejects the health query.
\<close>

theorem error_responses_witness:
  "err_status sqlite_no_such_function = None
   \<and> finish ''Failed to register'' (Inl sqlite_no_such_function, empty_store)
       = (reply 500 (Message ''SQLITE_ERROR: no such function: NOW''), empty_store)
   \<and> health_with unreachable_backend empty_store
       = (reply 500 (HealthError ''connect ECONNREFUSED 127.0.0.1:3306''), empty_store)
   \<and> error_shape (fst (update_task (example_env True False) ''1'' ''1''
        (body_of JUndefined JUndefined JUndefined JUndefined (JBool True)) example_store))"
proof -
  let ?refused = "driver_error ''ECONNREFUSED'' ''connect ECONNREFUSED 127.0.0.1:3306''"
  have st: "err_status sqlite_no_such_function = None"
    by (simp add: sqlite_no_such_function_def driver_error_def)
  have msg: "err_message sqlite_no_such_function = ''SQLITE_ERROR: no such function: NOW''"
    by (simp add: sqlite_no_such_function_def driver_error_def)
  have down: "unreachable_backend SelectOne empty_store = (Inl ?refused, empty_store)"
    by (simp add: unreachable_backend_def)
  have wording: "err_message ?refused = ''connect ECONNREFUSED 127.0.0.1:3306''"
    by (simp add: driver_error_def)
  note caught = error_responses_carry_a_message_only [of "example_env True False"
      "body_of JUndefined JUndefined JUndefined JUndefined (JBool True)" empty_store
      "''1''" "''1''" sqlite_no_such_function "''Failed to register''" unreachable_backend
      empty_store]
  note failed = error_responses_carry_a_message_only [of "example_env True False"
      "body_of JUndefined JUndefined JUndefined JUndefined (JBool True)" empty_store
      "''1''" "''1''" ?refused "''Failed''" unreachable_backend empty_store]
  note shape = error_responses_carry_a_message_only [of "example_env True False"
      "body_of JUndefined JUndefined JUndefined JUndefined (JBool True)" example_store
      "''1''" "''1''" ?refused "''Failed''" unreachable_backend empty_store]
  have one: "finish ''Failed to register'' (Inl sqlite_no_such_function, empty_store)
       = (reply 500 (Message ''SQLITE_ERROR: no such function: NOW''), empty_store)"
    using caught st msg by simp
  have two: "health_with unreachable_backend empty_store
       = (reply 500 (HealthError ''connect ECONNREFUSED 127.0.0.1:3306''), empty_store)"
    using failed down wording by simp
  have three: "error_shape (fst (update_task (example_env True False) ''1'' ''1''
        (body_of JUndefined JUndefined JUndefined JUndefined (JBool True)) example_store))"
    using shape by blast
  from st one two three show ?thesis by blast
qed

text \<open>
  C9 as stated fails: on the networked backend the update of an owned task is answered
  with status 500 and a message that quotes the rejected statement from \<open>RETURNING\<close> on.
\<close>

theorem driver_text_reaches_the_response:
  "status (fst (update_task (example_env True False) ''1'' ''1''
       (body_of JUndefined JUndefined JUndefined JUndefined (JBool True)) example_store)) = 500
   \<and> contains ''RETURNING id, user_id, title, completed, created_at, updated_at''
       (message_of (fst (update_task (example_env True False) ''1'' ''1''
          (body_of JUndefined JUndefined JUndefined JUndefined (JBool True)) example_store)))"
  by code_simp

section \<open>The row count of a write on the networked backend\<close>

text \<open>
  C3, evaluated on the networked backend. Deleting task 1 of user 1 through \<open>query\<close>
  removes one row; the result's \<open>rows\<close> is the driver's header, not a row list, and its
  \<open>rowCount\<close> is \<open>undefined\<close> rather than 1. The delete handler, which tests
  \<open>rowCount\<close>, therefore answers 404 although the task is gone.
\<close>

theorem networked_write_has_no_row_count:
  "fst (query (example_env True False) (DeleteTask ''1'' 1) example_store)
     = Inr \<lparr>rows = Header 1 0, rowCount = None, lastID = None\<rparr>
   \<and> fst (delete_task (example_env True False) ''1'' ''1'' example_store)
     = reply 404 (Message ''Task not found'')
   \<and> map t_id (tasks (snd (delete_task (example_env True False) ''1'' ''1'' example_store)))
     = [2]"
  by code_simp

section \<open>Inserts on the embedded backend\<close>

text \<open>
  C2, evaluated on the embedded backend. A valid registration on an empty store and a
  valid task creation for Ann are answered with 500, whether or not the engine knows
  \<open>NOW()\<close>: \<open>query\<close> returns no rows for an \<open>INSERT\<close>, and the read-back runs only after
  \<open>ER_PARSE_ERROR\<close>, which this backend never raises. Where the engine executes the
  insert, the row is stored and still not returned. The networked backend answers the
  same requests with 201.
\<close>

theorem embedded_insert_returns_no_row:
  "status (fst (register (example_env False False)
      (body_of (JStr ''Ann'') (JStr ''ann@x.com'') (JStr ''secret1'') JUndefined JUndefined)
      empty_store)) = 500
   \<and> status (fst (register (example_env False True)
      (body_of (JStr ''Ann'') (JStr ''ann@x.com'') (JStr ''secret1'') JUndefined JUndefined)
      empty_store)) = 500
   \<and> map u_email (users (snd (register (example_env False True)
      (body_of (JStr ''Ann'') (JStr ''ann@x.com'') (JStr ''secret1'') JUndefined JUndefined)
      empty_store))) = [''ann@x.com'']
   \<and> status (fst (create_task (example_env False False) ''1''
      (body_of JUndefined JUndefined JUndefined (JStr ''Buy milk'') JUndefined)
      example_store)) = 500
   \<and> status (fst (create_task (example_env False True) ''1''
      (body_of JUndefined JUndefined JUndefined (JStr ''Buy milk'') JUndefined)
      example_store)) = 500
   \<and> status (fst (register (example_env True False)
      (body_of (JStr ''Ann'') (JStr ''ann@x.com'') (JStr ''secret1'') JUndefined JUndefined)
      empty_store)) = 201
   \<and> status (fst (create_task (example_env True False) ''1''
      (body_of JUndefined JUndefined JUndefined (JStr ''Buy milk'') JUndefined)
      example_store)) = 201"
  by code_simp

section \<open>Running bootstrap again\<close>







end
